theory Spec2Isabelle
  imports Main
begin

section \<open>Errors raised by the dialect\<close>

text \<open>
  Every exception the modelled functions can raise is a constructor of one datatype; a
  function that may raise returns \<open>error + 'a\<close>, with \<open>Inl\<close> for the exception.
  \<open>ArgumentError\<close> carries its positional arguments: the table engine constructs it with
  \<open>(None, message)\<close>, the DDL compiler with the message alone. \<open>TypeError\<close> is what
  Python raises when \<open>None\<close> is subscripted, \<open>KeyError\<close> what a lookup of an enumeration
  member by an unknown name raises, \<open>AttributeError\<close> what reading a missing attribute
  raises. \<open>UnknownType\<close> is the unknown-type error of the type registry.
\<close>

datatype error =
    ArgumentError "string option list"
  | NoResultFound string
  | Exception string
  | TypeError
  | KeyError string
  | AttributeError string
  | UnknownType string

section \<open>The table engine (dialect.py, class QDBTableEngine)\<close>

text \<open>
  Modelled from the spec: the enumeration \<open>PartitionBy\<close> is declared in the module
  \<open>types\<close>, which is not among the sources; its members are the ones the data model
  lists. \<open>partition_name\<close> is the \<open>name\<close> attribute of a member, \<open>PartitionBy_lookup\<close>
  the lookup of a member by its name, \<open>PartitionBy[name]\<close>.
\<close>

datatype PartitionBy = DAY | MONTH | YEAR | NONE | HOUR | WEEK

fun partition_name :: "PartitionBy \<Rightarrow> string" where
  "partition_name DAY = ''DAY''"
| "partition_name MONTH = ''MONTH''"
| "partition_name YEAR = ''YEAR''"
| "partition_name NONE = ''NONE''"
| "partition_name HOUR = ''HOUR''"
| "partition_name WEEK = ''WEEK''"

definition PartitionBy_lookup :: "string \<Rightarrow> PartitionBy option" where
  "PartitionBy_lookup n =
     find (\<lambda>p. partition_name p = n) [DAY, MONTH, YEAR, NONE, HOUR, WEEK]"

text \<open>
  The attributes of an engine object. \<open>ts_col_name\<close> defaults to Python's \<open>None\<close> and
  \<open>partition_by\<close> is tested for truth before it is compared, so both are optional;
  \<open>compiled\<close> is the memo field, \<open>None\<close> until the suffix is requested.
\<close>

record QDBTableEngine =
  name :: string
  ts_col_name :: "string option"
  partition_by :: "PartitionBy option"
  is_wal :: bool
  compiled :: "string option"

definition QDBTableEngine_init ::
  "string \<Rightarrow> string option \<Rightarrow> PartitionBy option \<Rightarrow> bool \<Rightarrow> QDBTableEngine" where
  "QDBTableEngine_init table_name_arg ts_col part_by wal =
     \<lparr> name = table_name_arg, ts_col_name = ts_col, partition_by = part_by,
       is_wal = wal, compiled = None \<rparr>"

text \<open>
  \<open>self.partition_by and self.partition_by != PartitionBy.NONE\<close>: a member of a plain
  enumeration is always true, Python's \<open>None\<close> is false.
\<close>

definition is_partitioned :: "QDBTableEngine \<Rightarrow> bool" where
  "is_partitioned self =
     (case partition_by self of None \<Rightarrow> False | Some p \<Rightarrow> p \<noteq> NONE)"

definition ts_error :: error where
  "ts_error = ArgumentError
     [None, Some ''Designated timestamp must be specified for partitioned table'']"

definition wal_error :: error where
  "wal_error = ArgumentError
     [None, Some ''Designated timestamp and partition by must be specified for WAL table'']"

text \<open>
  \<open>get_table_suffix\<close> mutates \<open>self.compiled\<close> as it goes, so the model returns the engine
  after the call together with the result. The three steps are the three \<open>if\<close> statements
  of the source, each taking the memo built so far; a \<open>raise\<close> leaves the memo as the
  statements before it built it.
\<close>

definition append_timestamp :: "QDBTableEngine \<Rightarrow> string \<Rightarrow> string" where
  "append_timestamp self c =
     (case ts_col_name self of
        Some ts \<Rightarrow> c @ ''TIMESTAMP('' @ ts @ '')''
      | None \<Rightarrow> c)"

definition append_partition :: "QDBTableEngine \<Rightarrow> string \<Rightarrow> error + string" where
  "append_partition self c =
     (case partition_by self of
        None \<Rightarrow> Inr c
      | Some p \<Rightarrow>
          if p \<noteq> NONE then
            (if ts_col_name self = None then Inl ts_error
             else Inr (c @ '' PARTITION BY '' @ partition_name p))
          else Inr c)"

definition append_wal :: "QDBTableEngine \<Rightarrow> string \<Rightarrow> error + string" where
  "append_wal self c =
     (if is_wal self then
        (if \<not> is_partitioned self then Inl wal_error
         else if is_wal self then Inr (c @ '' WAL'')
         else Inr (c @ '' BYPASS WAL''))
      else Inr c)"

definition get_table_suffix :: "QDBTableEngine \<Rightarrow> QDBTableEngine \<times> (error + string)" where
  "get_table_suffix self =
     (case compiled self of
        Some s \<Rightarrow> (self, Inr s)
      | None \<Rightarrow>
          (let c1 = append_timestamp self [] in
           case append_partition self c1 of
             Inl e \<Rightarrow> (self\<lparr>compiled := Some c1\<rparr>, Inl e)
           | Inr c2 \<Rightarrow>
               (case append_wal self c2 of
                  Inl e \<Rightarrow> (self\<lparr>compiled := Some c2\<rparr>, Inl e)
                | Inr c3 \<Rightarrow> (self\<lparr>compiled := Some c3\<rparr>, Inr c3))))"

text \<open>The engine after \<open>n\<close> calls of \<open>get_table_suffix\<close>, whatever they returned or raised.\<close>

fun engine_after :: "nat \<Rightarrow> QDBTableEngine \<Rightarrow> QDBTableEngine" where
  "engine_after 0 e = e"
| "engine_after (Suc n) e = engine_after n (fst (get_table_suffix e))"

text \<open>Python's \<open>sep.join(xs)\<close>.\<close>

fun join :: "string \<Rightarrow> string list \<Rightarrow> string" where
  "join sep [] = []"
| "join sep [x] = x"
| "join sep (x # y # ys) = x @ sep @ join sep (y # ys)"

subsection \<open>What the specification asks of the suffix\<close>

text \<open>
  The invariants of the data model: a partitioned table has a designated timestamp, a WAL
  table is partitioned. An engine without a partitioning value counts as not partitioned,
  as it does for the code.
\<close>

definition valid_fields :: "QDBTableEngine \<Rightarrow> bool" where
  "valid_fields e \<longleftrightarrow>
     (is_partitioned e \<longrightarrow> ts_col_name e \<noteq> None) \<and> (is_wal e \<longrightarrow> is_partitioned e)"

text \<open>
  The clauses the specification lists, in its order: the designated timestamp, the
  partitioning, the WAL flag. The expected suffix is the applicable ones, separated by
  single blanks.
\<close>

definition timestamp_clause :: "QDBTableEngine \<Rightarrow> string list" where
  "timestamp_clause e =
     (case ts_col_name e of Some ts \<Rightarrow> [''TIMESTAMP('' @ ts @ '')''] | None \<Rightarrow> [])"

definition partition_clause :: "QDBTableEngine \<Rightarrow> string list" where
  "partition_clause e =
     (case partition_by e of
        Some p \<Rightarrow> (if p = NONE then [] else [''PARTITION BY '' @ partition_name p])
      | None \<Rightarrow> [])"

definition wal_clause :: "QDBTableEngine \<Rightarrow> string list" where
  "wal_clause e = (if is_wal e then [''WAL''] else [])"

definition expected_suffix :: "QDBTableEngine \<Rightarrow> string" where
  "expected_suffix e = join '' '' (timestamp_clause e @ partition_clause e @ wal_clause e)"

section \<open>Identifier quoting (dialect.py, \<open>_quote_identifier\<close>)\<close>

text \<open>The single and the double quote character.\<close>

definition QUOTES :: "char list" where
  "QUOTES = [CHR 0x27, CHR 0x22]"

text \<open>
  \<open>xs[i:j]\<close> for \<open>0 \<le> i\<close> and \<open>0 \<le> j \<le> len(xs)\<close>, the only slices the quoter takes; the
  slice is empty when \<open>j \<le> i\<close>.
\<close>

definition slice :: "'a list \<Rightarrow> nat \<Rightarrow> nat \<Rightarrow> 'a list" where
  "slice xs i j = take (j - i) (drop i xs)"

text \<open>
  The result \<open>None\<close> of the source is \<open>None\<close> here. Both index reads are in range, the
  identifier being non-empty when they happen.
\<close>

definition quote_identifier :: "string \<Rightarrow> string option" where
  "quote_identifier identifier =
     (if identifier = [] then None
      else
        let first0 = 0;
            last0 = length identifier;
            first1 = (if identifier ! first0 \<in> set QUOTES then first0 + 1 else first0);
            last1 = (if identifier ! (last0 - 1) \<in> set QUOTES then last0 - 1 else last0)
        in Some ([CHR 0x27] @ slice identifier first1 last1 @ [CHR 0x27]))"

text \<open>
  Stripping one quote character in front, and one at the end, as the claim about the quoter
  words it.
\<close>

definition strip_leading_quote :: "string \<Rightarrow> string" where
  "strip_leading_quote s =
     (case s of [] \<Rightarrow> [] | c # cs \<Rightarrow> if c \<in> set QUOTES then cs else s)"

definition strip_trailing_quote :: "string \<Rightarrow> string" where
  "strip_trailing_quote s = (if s \<noteq> [] \<and> last s \<in> set QUOTES then butlast s else s)"

section \<open>Tables and columns of the host framework\<close>

text \<open>
  The framework's objects, with the attributes the dialect reads and writes. A column type
  is either one of the dialect's types (an instance of \<open>QDBTypeMixin\<close>) or any other type of
  the framework. The types themselves live in the module \<open>types\<close>, which is not among the
  sources, so the functions below take them as the type parameter \<open>'ty\<close>. A table has an
  \<open>engine\<close> attribute only once a table engine has been attached to it.
\<close>

datatype 'ty column_type = QDBType 'ty | OtherType

record 'ty Column =
  column_name :: string
  column_type :: "'ty column_type"
  primary_key :: bool

datatype MetaData = MetaData "string list"

record 'ty Table =
  table_name :: string
  fullname :: string
  table_columns :: "'ty Column list"
  engine :: "QDBTableEngine option"
  metadata :: MetaData

text \<open>
  A \<open>CREATE TABLE\<close> request: the table, and the columns to create (the \<open>element\<close> of each
  entry of \<open>create.columns\<close>).
\<close>

record 'ty CreateTable =
  element :: "'ty Table"
  columns :: "'ty Column list"

section \<open>The DDL compiler (dialect.py, class QDBDDLCompiler)\<close>

definition visit_create_schema :: "'c \<Rightarrow> 'k \<Rightarrow> error + string" where
  "visit_create_schema create kw = Inl (Exception ''QuestDB does not support SCHEMAS'')"

definition visit_drop_schema :: "'d \<Rightarrow> 'k \<Rightarrow> error + string" where
  "visit_drop_schema drop_arg kw = Inl (Exception ''QuestDB does not support SCHEMAS'')"

text \<open>
  \<open>column_spec\<close> is the method of the dialect's types that renders a column of that type;
  it is defined with the types, so it is a parameter here.
\<close>

definition get_column_specification ::
  "('ty \<Rightarrow> string \<Rightarrow> string) \<Rightarrow> 'ty Column \<Rightarrow> error + string" where
  "get_column_specification column_spec column =
     (case column_type column of
        OtherType \<Rightarrow> Inl (ArgumentError [Some ''Column type is not a valid QuestDB type''])
      | QDBType t \<Rightarrow> Inr (column_spec t (column_name column)))"

text \<open>The list comprehension over \<open>create.columns\<close>: the first column that raises ends it.\<close>

fun column_specifications ::
  "('ty \<Rightarrow> string \<Rightarrow> string) \<Rightarrow> 'ty Column list \<Rightarrow> error + string list" where
  "column_specifications column_spec [] = Inr []"
| "column_specifications column_spec (c # cs) =
     (case get_column_specification column_spec c of
        Inl e \<Rightarrow> Inl e
      | Inr s \<Rightarrow>
          (case column_specifications column_spec cs of
             Inl e \<Rightarrow> Inl e
           | Inr ss \<Rightarrow> Inr (s # ss)))"

text \<open>
  \<open>visit_create_table\<close> returns the request as the call leaves it (the engine's memo may
  have been set) together with the text or the exception.
\<close>

definition visit_create_table ::
  "('ty \<Rightarrow> string \<Rightarrow> string) \<Rightarrow> 'ty CreateTable
     \<Rightarrow> 'ty CreateTable \<times> (error + string)" where
  "visit_create_table column_spec create =
     (let table = element create;
          create_table = ''CREATE TABLE '' @ [CHR 0x27] @ fullname table @ [CHR 0x27] @ '' (''
      in case column_specifications column_spec (columns create) of
           Inl e \<Rightarrow> (create, Inl e)
         | Inr specs \<Rightarrow>
             (let create_table = create_table @ join '', '' specs
              in case engine table of
                   None \<Rightarrow> (create, Inl (AttributeError ''engine''))
                 | Some eng \<Rightarrow>
                     (case get_table_suffix eng of
                        (eng', Inl e) \<Rightarrow>
                          (create\<lparr>element := table\<lparr>engine := Some eng'\<rparr>\<rparr>, Inl e)
                      | (eng', Inr suffix) \<Rightarrow>
                          (create\<lparr>element := table\<lparr>engine := Some eng'\<rparr>\<rparr>,
                           Inr (create_table @ '') '' @ suffix)))))"

text \<open>
  For the statements about the compiler: whether a column carries one of the dialect's
  types, the specification such a column renders to, and the layout of the statement the
  specification documents.
\<close>

definition is_qdb_type :: "'ty Column \<Rightarrow> bool" where
  "is_qdb_type c = (case column_type c of QDBType _ \<Rightarrow> True | OtherType \<Rightarrow> False)"

definition rendered_spec :: "('ty \<Rightarrow> string \<Rightarrow> string) \<Rightarrow> 'ty Column \<Rightarrow> string" where
  "rendered_spec column_spec c =
     (case column_type c of QDBType t \<Rightarrow> column_spec t (column_name c) | OtherType \<Rightarrow> [])"

definition create_table_text :: "string \<Rightarrow> string list \<Rightarrow> string \<Rightarrow> string" where
  "create_table_text table specs suffix =
     ''CREATE TABLE '' @ [CHR 0x27] @ table @ [CHR 0x27] @ '' ('' @ join '', '' specs
       @ '') '' @ suffix"

section \<open>Strings\<close>

text \<open>Python's \<open>s.startswith(p)\<close>, with the prefix as the first argument.\<close>

fun starts_with :: "string \<Rightarrow> string \<Rightarrow> bool" where
  "starts_with [] s = True"
| "starts_with (p # ps) [] = False"
| "starts_with (p # ps) (c # cs) = (p = c \<and> starts_with ps cs)"

section \<open>The type registry\<close>

text \<open>
  Modelled from the spec: the registry \<open>QUESTDB_TYPES\<close> and the functions
  \<open>resolve_type_from_name\<close>, \<open>geohash_class\<close> and \<open>geohash_type_name\<close> are defined in the
  module \<open>types\<close>, which is not among the sources. A type descriptor is a database type
  name with an abstract type, and the registry is a list of descriptors. The abstract
  types are the classes \<open>__init__.py\<close> imports from \<open>types\<close>, prefixed with \<open>Q\<close> (\<open>Int\<close> and
  \<open>Char\<close> are taken in HOL). The specification does not list the database names;
  \<open>QUESTDB_TYPES\<close> gives each type the name the database documents for it.
\<close>

datatype qdb_type =
    QBoolean | QByte | QShort | QInt | QLong | QFloat | QDouble | QSymbol | QString | QChar
  | QUUID | QDate | QTimestamp | QLong256
  | QGeohashByte | QGeohashShort | QGeohashInt | QGeohashLong

record type_descriptor =
  database_type_name :: string
  abstract_type :: qdb_type

definition QUESTDB_TYPES :: "type_descriptor list" where
  "QUESTDB_TYPES =
     [\<lparr>database_type_name = ''BOOLEAN'', abstract_type = QBoolean\<rparr>,
      \<lparr>database_type_name = ''BYTE'', abstract_type = QByte\<rparr>,
      \<lparr>database_type_name = ''SHORT'', abstract_type = QShort\<rparr>,
      \<lparr>database_type_name = ''INT'', abstract_type = QInt\<rparr>,
      \<lparr>database_type_name = ''LONG'', abstract_type = QLong\<rparr>,
      \<lparr>database_type_name = ''FLOAT'', abstract_type = QFloat\<rparr>,
      \<lparr>database_type_name = ''DOUBLE'', abstract_type = QDouble\<rparr>,
      \<lparr>database_type_name = ''SYMBOL'', abstract_type = QSymbol\<rparr>,
      \<lparr>database_type_name = ''STRING'', abstract_type = QString\<rparr>,
      \<lparr>database_type_name = ''CHAR'', abstract_type = QChar\<rparr>,
      \<lparr>database_type_name = ''UUID'', abstract_type = QUUID\<rparr>,
      \<lparr>database_type_name = ''DATE'', abstract_type = QDate\<rparr>,
      \<lparr>database_type_name = ''TIMESTAMP'', abstract_type = QTimestamp\<rparr>,
      \<lparr>database_type_name = ''LONG256'', abstract_type = QLong256\<rparr>,
      \<lparr>database_type_name = ''GEOHASH(8b)'', abstract_type = QGeohashByte\<rparr>,
      \<lparr>database_type_name = ''GEOHASH(3c)'', abstract_type = QGeohashShort\<rparr>,
      \<lparr>database_type_name = ''GEOHASH(6c)'', abstract_type = QGeohashInt\<rparr>,
      \<lparr>database_type_name = ''GEOHASH(12c)'', abstract_type = QGeohashLong\<rparr>]"

text \<open>
  The geohash family is parametrized by its precision. The specification names its four
  widths, byte, short, int and long; a precision of so many bits gets the narrowest of the
  widths 8, 16, 32 and 64 that holds it, and no class beyond 64 bits. \<open>geohash_type_name\<close>
  is the database name of that class.
\<close>

definition geohash_class :: "nat \<Rightarrow> qdb_type option" where
  "geohash_class bits =
     (if bits \<le> 8 then Some QGeohashByte
      else if bits \<le> 16 then Some QGeohashShort
      else if bits \<le> 32 then Some QGeohashInt
      else if bits \<le> 64 then Some QGeohashLong
      else None)"

definition descriptor_of :: "type_descriptor list \<Rightarrow> qdb_type \<Rightarrow> type_descriptor option" where
  "descriptor_of registry cls = find (\<lambda>d. abstract_type d = cls) registry"

definition geohash_type_name :: "type_descriptor list \<Rightarrow> nat \<Rightarrow> string option" where
  "geohash_type_name registry bits =
     (case geohash_class bits of
        None \<Rightarrow> None
      | Some cls \<Rightarrow> map_option database_type_name (descriptor_of registry cls))"

text \<open>
  A geohash name as the database reports it is \<open>GEOHASH(\<close>, a decimal number, the unit
  \<open>c\<close> (characters, of five bits each) or \<open>b\<close> (bits), and \<open>)\<close>, as in the scenario
  \<open>GEOHASH(4c)\<close> of the specification. \<open>geohash_bits\<close> reads the precision in bits off such
  a name and gives \<open>None\<close> for any other string.
\<close>

definition digit_value :: "char \<Rightarrow> nat option" where
  "digit_value c =
     (let n = (of_char c :: nat) in if 48 \<le> n \<and> n \<le> 57 then Some (n - 48) else None)"

fun decimal :: "nat \<Rightarrow> string \<Rightarrow> nat option" where
  "decimal acc [] = Some acc"
| "decimal acc (c # cs) =
     (case digit_value c of None \<Rightarrow> None | Some d \<Rightarrow> decimal (10 * acc + d) cs)"

definition geohash_bits :: "string \<Rightarrow> nat option" where
  "geohash_bits raw_name =
     (if starts_with ''GEOHASH('' raw_name then
        (let body = drop 8 raw_name in
         if 3 \<le> length body \<and> last body = CHR '')'' then
           (let unit_char = body ! (length body - 2);
                digits = take (length body - 2) body
            in case decimal 0 digits of
                 None \<Rightarrow> None
               | Some k \<Rightarrow>
                   if unit_char = CHR ''c'' then Some (5 * k)
                   else if unit_char = CHR ''b'' then Some k
                   else None)
         else None)
      else None)"

text \<open>
  Resolution: a name some descriptor of the registry has gives that descriptor; a geohash
  name gives the descriptor of the class sized for its precision; any other name fails
  with the unknown-type error, and no type stands in for an unknown one.
\<close>

definition resolve_type_from_name ::
  "type_descriptor list \<Rightarrow> string \<Rightarrow> error + type_descriptor" where
  "resolve_type_from_name registry raw_name =
     (case find (\<lambda>d. database_type_name d = raw_name) registry of
        Some d \<Rightarrow> Inr d
      | None \<Rightarrow>
          (case geohash_bits raw_name of
             None \<Rightarrow> Inl (UnknownType raw_name)
           | Some bits \<Rightarrow>
               (case geohash_class bits of
                  None \<Rightarrow> Inl (UnknownType raw_name)
                | Some cls \<Rightarrow>
                    (case descriptor_of registry cls of
                       None \<Rightarrow> Inl (UnknownType raw_name)
                     | Some d \<Rightarrow> Inr d))))"

text \<open>
  The names that have an entry: those of the descriptors, and the geohash names whose
  precision has a class.
\<close>

definition has_registry_entry :: "type_descriptor list \<Rightarrow> string \<Rightarrow> bool" where
  "has_registry_entry registry raw_name \<longleftrightarrow>
     raw_name \<in> set (map database_type_name registry)
     \<or> (case geohash_bits raw_name of
          None \<Rightarrow> False
        | Some bits \<Rightarrow> geohash_class bits \<noteq> None)"

section \<open>The schema inspector (dialect.py, class QDBInspector)\<close>

text \<open>
  What \<open>bind.execute\<close> hands back: an object that is tested for truth and iterated. The
  two are kept apart, since the truth of a result object is for the framework to decide.
  \<open>first_row\<close> is its method \<open>first()\<close>, which gives \<open>None\<close> when there is no row.
\<close>

record 'r result_set =
  truthy :: bool
  rows :: "'r list"

definition first_row :: "'r result_set \<Rightarrow> 'r option" where
  "first_row rs = (case rows rs of [] \<Rightarrow> None | r # _ \<Rightarrow> Some r)"

text \<open>
  A row of the table-level query, with the three entries \<open>reflect_table\<close> reads. The
  database reports the partition granularity by the name of a member of \<open>PartitionBy\<close>;
  the row holds the member, and the string the code looks up is its name.
\<close>

record table_attrs =
  designatedTimestamp :: "string option"
  partitionBy :: PartitionBy
  walEnabled :: bool

text \<open>
  The row reports a designated timestamp when its entry is true for Python, neither
  \<open>None\<close> nor the empty string: this is how \<open>reflect_table\<close> itself tells
  (\<open>col_ts_name and ...\<close>).
\<close>

definition reports_timestamp :: "table_attrs \<Rightarrow> string \<Rightarrow> bool" where
  "reports_timestamp attrs ts \<longleftrightarrow> designatedTimestamp attrs = Some ts \<and> ts \<noteq> []"

text \<open>
  \<open>include_columns and col_name not in include_columns\<close> and its counterpart for
  \<open>exclude_columns\<close>: \<open>None\<close> and an empty collection are both false.
\<close>

definition skipped_by_include :: "string list option \<Rightarrow> string \<Rightarrow> bool" where
  "skipped_by_include include_columns col_name =
     (case include_columns of
        None \<Rightarrow> False
      | Some ns \<Rightarrow> ns \<noteq> [] \<and> col_name \<notin> set ns)"

definition skipped_by_exclude :: "string list option \<Rightarrow> string \<Rightarrow> bool" where
  "skipped_by_exclude exclude_columns col_name =
     (case exclude_columns of
        None \<Rightarrow> False
      | Some ns \<Rightarrow> ns \<noteq> [] \<and> col_name \<in> set ns)"

text \<open>
  \<open>col_ts_name and col_ts_name.upper() == col_name.upper()\<close>. Python's \<open>str.upper\<close> is a
  built-in that folds case over all of Unicode; it is the parameter \<open>upper\<close>, and nothing
  is assumed of it.
\<close>

definition is_designated :: "(string \<Rightarrow> string) \<Rightarrow> string option \<Rightarrow> string \<Rightarrow> bool" where
  "is_designated upper col_ts_name col_name =
     (case col_ts_name of
        None \<Rightarrow> False
      | Some ts \<Rightarrow> ts \<noteq> [] \<and> upper ts = upper col_name)"

text \<open>
  \<open>Table.append_column\<close> of the framework: a column whose name the table already has a
  column of takes that column's place; any other column goes to the end.
\<close>

definition append_column :: "'ty Table \<Rightarrow> 'ty Column \<Rightarrow> 'ty Table" where
  "append_column table c =
     (if column_name c \<in> set (map column_name (table_columns table)) then
        table\<lparr>table_columns :=
                map (\<lambda>x. if column_name x = column_name c then c else x) (table_columns table)\<rparr>
      else table\<lparr>table_columns := table_columns table @ [c]\<rparr>)"

text \<open>
  The loop over the rows of the column query. The table is mutated row by row, so an
  exception of the resolver leaves the columns of the rows before it in the table.
  \<open>resolve\<close> is \<open>types.resolve_type_from_name\<close>, taken as a parameter that returns a type
  or raises.
\<close>

fun reflect_columns ::
  "(string \<Rightarrow> string) \<Rightarrow> (string \<Rightarrow> error + 'ty) \<Rightarrow> string option \<Rightarrow> string list option \<Rightarrow> string list option
     \<Rightarrow> 'ty Table \<Rightarrow> (string \<times> string) list \<Rightarrow> 'ty Table \<times> (error + unit)" where
  "reflect_columns upper resolve col_ts_name include_columns exclude_columns table [] =
     (table, Inr ())"
| "reflect_columns upper resolve col_ts_name include_columns exclude_columns table (row # rest) =
     (let col_name = fst row in
      if skipped_by_include include_columns col_name then
        reflect_columns upper resolve col_ts_name include_columns exclude_columns table rest
      else if skipped_by_exclude exclude_columns col_name then
        reflect_columns upper resolve col_ts_name include_columns exclude_columns table rest
      else
        (case resolve (snd row) of
           Inl e \<Rightarrow> (table, Inl e)
         | Inr col_type \<Rightarrow>
             if is_designated upper col_ts_name col_name then
               reflect_columns upper resolve col_ts_name include_columns exclude_columns
                 (append_column table
                    \<lparr>column_name = col_name, column_type = QDBType col_type,
                     primary_key = True\<rparr>) rest
             else
               reflect_columns upper resolve col_ts_name include_columns exclude_columns
                 (append_column table
                    \<lparr>column_name = col_name, column_type = QDBType col_type,
                     primary_key = False\<rparr>) rest))"

text \<open>
  \<open>reflect_table\<close>, given the results of its two queries. It returns the table as the call
  leaves it and \<open>Inr ()\<close> when nothing was raised.
\<close>

definition reflect_table ::
  "(string \<Rightarrow> string) \<Rightarrow> (string \<Rightarrow> error + 'ty) \<Rightarrow> table_attrs result_set \<Rightarrow> (string \<times> string) result_set
     \<Rightarrow> 'ty Table \<Rightarrow> string list option \<Rightarrow> string list option
     \<Rightarrow> 'ty Table \<times> (error + unit)" where
  "reflect_table upper resolve tables_result columns_result table include_columns exclude_columns =
     (let tname = table_name table in
      if \<not> truthy tables_result then
        (table, Inl (NoResultFound
           (''Table '' @ [CHR 0x27] @ tname @ [CHR 0x27] @ '' does not exist'')))
      else
        (case first_row tables_result of
           None \<Rightarrow> (table, Inl TypeError)
         | Some attrs \<Rightarrow>
             (let col_ts_name = designatedTimestamp attrs in
              case PartitionBy_lookup (partition_name (partitionBy attrs)) of
                None \<Rightarrow> (table, Inl (KeyError (partition_name (partitionBy attrs))))
              | Some part_by \<Rightarrow>
                  (let wal = (if walEnabled attrs then True else False) in
                   case reflect_columns upper resolve col_ts_name include_columns exclude_columns
                          table (rows columns_result) of
                     (table', Inl e) \<Rightarrow> (table', Inl e)
                   | (table', Inr u) \<Rightarrow>
                       (table'\<lparr>engine :=
                                 Some (QDBTableEngine_init tname col_ts_name (Some part_by) wal),
                               metadata := MetaData []\<rparr>, Inr ())))))"

text \<open>The dictionary \<open>get_columns\<close> builds for a row.\<close>

record 'ty column_info =
  info_name :: string
  info_type :: 'ty
  nullable :: bool
  autoincrement :: bool
  persisted :: bool

fun column_infos ::
  "(string \<Rightarrow> error + 'ty) \<Rightarrow> (string \<times> string) list \<Rightarrow> error + 'ty column_info list" where
  "column_infos resolve [] = Inr []"
| "column_infos resolve (row # rest) =
     (case resolve (snd row) of
        Inl e \<Rightarrow> Inl e
      | Inr t \<Rightarrow>
          (case column_infos resolve rest of
             Inl e \<Rightarrow> Inl e
           | Inr ds \<Rightarrow>
               Inr (\<lparr>info_name = fst row, info_type = t, nullable = True,
                     autoincrement = False, persisted = True\<rparr> # ds)))"

definition get_columns ::
  "(string \<Rightarrow> error + 'ty) \<Rightarrow> string \<Rightarrow> (string \<times> string) result_set
     \<Rightarrow> error + 'ty column_info list" where
  "get_columns resolve tname columns_result =
     (if \<not> truthy columns_result then
        Inl (NoResultFound
           (''Table '' @ [CHR 0x27] @ tname @ [CHR 0x27] @ '' does not exist''))
      else column_infos resolve (rows columns_result))"

section \<open>The cursor (__init__.py, class Cursor)\<close>

text \<open>
  Modelled from the spec: \<open>remove_public_schema\<close> is defined in the module \<open>common\<close>, which
  is not among the sources. The specification has it strip the namespace qualification
  \<open>public.\<close> from the query text; the model removes every occurrence of that prefix, left
  to right, and leaves every other character in place.
\<close>

fun remove_public_schema :: "string \<Rightarrow> string" where
  "remove_public_schema [] = []"
| "remove_public_schema (c # cs) =
     (if starts_with ''public.'' (c # cs) then remove_public_schema (drop 6 cs)
      else c # remove_public_schema cs)"

text \<open>
  \<open>Cursor.execute\<close> hands the rewritten query and the variables to the \<open>execute\<close> of the
  client library's cursor, which is the parameter \<open>super_execute\<close>.
\<close>

definition Cursor_execute :: "(string \<Rightarrow> 'v \<Rightarrow> 'r) \<Rightarrow> string \<Rightarrow> 'v \<Rightarrow> 'r" where
  "Cursor_execute super_execute query vars = super_execute (remove_public_schema query) vars"

section \<open>Example inputs\<close>

text \<open>
  A table named \<open>trades\<close> with no columns yet, the row the table-level query returns for it,
  two results of the column query (the second with a column of the database type
  \<open>BINARY\<close>, which the registry does not know), and a rendering of column specifications
  for the examples (the column name, a blank, the database type name).
\<close>

definition trades_table :: "type_descriptor Table" where
  "trades_table =
     \<lparr>table_name = ''trades'', fullname = ''trades'', table_columns = [],
      engine = None, metadata = MetaData []\<rparr>"

definition trades_attrs :: "table_attrs result_set" where
  "trades_attrs =
     \<lparr>truthy = True,
      rows = [\<lparr>designatedTimestamp = Some ''TS'', partitionBy = DAY,
               walEnabled = True\<rparr>]\<rparr>"

definition trades_columns :: "(string \<times> string) result_set" where
  "trades_columns =
     \<lparr>truthy = True, rows = [(''ts'', ''TIMESTAMP''), (''price'', ''DOUBLE'')]\<rparr>"

definition trades_columns_binary :: "(string \<times> string) result_set" where
  "trades_columns_binary =
     \<lparr>truthy = True, rows = [(''ts'', ''TIMESTAMP''), (''payload'', ''BINARY'')]\<rparr>"

text \<open>
  \<open>str.upper\<close> on names of ASCII characters, as the names of the examples are: the letters
  \<open>a\<close> to \<open>z\<close> go to \<open>A\<close> to \<open>Z\<close> and every other character stays.
\<close>

definition ascii_upper_char :: "char \<Rightarrow> char" where
  "ascii_upper_char c =
     (let n = (of_char c :: nat) in if 97 \<le> n \<and> n \<le> 122 then char_of (n - 32) else c)"

definition ascii_upper :: "string \<Rightarrow> string" where
  "ascii_upper s = map ascii_upper_char s"

definition name_and_type :: "type_descriptor \<Rightarrow> string \<Rightarrow> string" where
  "name_and_type t n = n @ '' '' @ database_type_name t"

definition timestamp_type :: type_descriptor where
  "timestamp_type = \<lparr>database_type_name = ''TIMESTAMP'', abstract_type = QTimestamp\<rparr>"

definition double_type :: type_descriptor where
  "double_type = \<lparr>database_type_name = ''DOUBLE'', abstract_type = QDouble\<rparr>"

text \<open>The table \<open>trades\<close> as a program may declare it before reflecting it, with its price column.\<close>

definition trades_declared :: "type_descriptor Table" where
  "trades_declared =
     trades_table
       \<lparr>table_columns :=
          [\<lparr>column_name = ''price'', column_type = QDBType double_type,
            primary_key = False\<rparr>]\<rparr>"

definition trades_create :: "type_descriptor CreateTable" where
  "trades_create =
     \<lparr>element = trades_table
        \<lparr>engine := Some (QDBTableEngine_init ''trades'' (Some ''ts'') (Some DAY) True)\<rparr>,
      columns =
        [\<lparr>column_name = ''ts'', column_type = QDBType timestamp_type, primary_key = True\<rparr>,
         \<lparr>column_name = ''price'', column_type = QDBType double_type,
          primary_key = False\<rparr>]\<rparr>"

definition trades_create_no_ts :: "type_descriptor CreateTable" where
  "trades_create_no_ts =
     trades_create
       \<lparr>element := trades_table
          \<lparr>engine := Some (QDBTableEngine_init ''trades'' None (Some DAY) True)\<rparr>\<rparr>"

definition trades_create_foreign :: "type_descriptor CreateTable" where
  "trades_create_foreign =
     trades_create
       \<lparr>columns :=
          [\<lparr>column_name = ''ts'', column_type = QDBType timestamp_type, primary_key = True\<rparr>,
           \<lparr>column_name = ''note'', column_type = OtherType, primary_key = False\<rparr>]\<rparr>"

section \<open>Properties of the table engine\<close>

lemma get_table_suffix_memo:
  "compiled e = Some s \<Longrightarrow> get_table_suffix e = (e, Inr s)"
  by (simp add: get_table_suffix_def)

lemma get_table_suffix_sets_memo:
  "\<exists>s. compiled (fst (get_table_suffix e)) = Some s"
  by (cases "compiled e")
     (auto simp: get_table_suffix_def Let_def split: sum.splits)

lemma get_table_suffix_fresh_valid:
  assumes "valid_fields e" and "compiled e = None"
  shows "get_table_suffix e
           = (e\<lparr>compiled := Some (expected_suffix e)\<rparr>, Inr (expected_suffix e))"
  using assms
  by (auto simp: get_table_suffix_def valid_fields_def is_partitioned_def Let_def
        append_timestamp_def append_partition_def append_wal_def expected_suffix_def
        timestamp_clause_def partition_clause_def wal_clause_def
        split: option.splits)

lemma get_table_suffix_fresh_invalid:
  assumes "compiled e = None" and "\<not> valid_fields e"
  shows "snd (get_table_suffix e) = Inl ts_error \<or> snd (get_table_suffix e) = Inl wal_error"
  using assms
  by (auto simp: get_table_suffix_def valid_fields_def is_partitioned_def Let_def
        append_partition_def append_wal_def
        split: option.splits sum.splits if_splits)

lemma expected_suffix_memo: "expected_suffix (e\<lparr>compiled := c\<rparr>) = expected_suffix e"
  by (simp add: expected_suffix_def timestamp_clause_def partition_clause_def wal_clause_def)

lemma valid_fields_memo: "valid_fields (e\<lparr>compiled := c\<rparr>) = valid_fields e"
  by (simp add: valid_fields_def is_partitioned_def)

lemma get_table_suffix_consistent:
  assumes "valid_fields e"
    and "compiled e = None \<or> compiled e = Some (expected_suffix e)"
  shows "get_table_suffix e
           = (e\<lparr>compiled := Some (expected_suffix e)\<rparr>, Inr (expected_suffix e))"
proof (cases "compiled e")
  case None
  with assms(1) show ?thesis by (rule get_table_suffix_fresh_valid)
next
  case (Some s)
  with assms(2) have s: "compiled e = Some (expected_suffix e)" by simp
  then have "e\<lparr>compiled := Some (expected_suffix e)\<rparr> = e" by (cases e) simp
  with s show ?thesis by (simp add: get_table_suffix_def)
qed

lemma engine_after_memo:
  assumes "valid_fields e"
    and "compiled e = None \<or> compiled e = Some (expected_suffix e)"
  shows "\<exists>c. engine_after n e = e\<lparr>compiled := c\<rparr>
           \<and> (c = None \<or> c = Some (expected_suffix e))"
  using assms
proof (induction n arbitrary: e)
  case 0
  have "e\<lparr>compiled := compiled e\<rparr> = e" by (cases e) simp
  with "0.prems"(2) show ?case by (metis engine_after.simps(1))
next
  case (Suc n)
  let ?e = "e\<lparr>compiled := Some (expected_suffix e)\<rparr>"
  have step: "engine_after (Suc n) e = engine_after n ?e"
    using get_table_suffix_consistent [OF Suc.prems] by simp
  have "valid_fields ?e" using Suc.prems(1) by (simp add: valid_fields_memo)
  moreover have "compiled ?e = None \<or> compiled ?e = Some (expected_suffix ?e)"
    by (simp add: expected_suffix_memo)
  ultimately obtain c where c: "engine_after n ?e = ?e\<lparr>compiled := c\<rparr>"
    "c = None \<or> c = Some (expected_suffix ?e)"
    using Suc.IH by blast
  from c(1) step have "engine_after (Suc n) e = e\<lparr>compiled := c\<rparr>" by simp
  with c(2) show ?case by (auto simp: expected_suffix_memo)
qed

text \<open>
  C1. An engine built by the constructor whose fields satisfy the invariants of the data
  model returns, on every call, the applicable clauses in the order designated timestamp,
  partitioning, WAL, separated by single blanks. The engine with timestamp column \<open>ts\<close>,
  partitioning by day and the WAL flag set yields \<open>TIMESTAMP(ts) PARTITION BY DAY WAL\<close>.
\<close>

theorem get_table_suffix_valid:
  assumes "valid_fields (QDBTableEngine_init tn ts pb wal)"
  shows "snd (get_table_suffix (engine_after n (QDBTableEngine_init tn ts pb wal)))
           = Inr (expected_suffix (QDBTableEngine_init tn ts pb wal))
       \<and> snd (get_table_suffix (QDBTableEngine_init ''t'' (Some ''ts'') (Some DAY) True))
           = Inr ''TIMESTAMP(ts) PARTITION BY DAY WAL''"
proof -
  let ?e = "QDBTableEngine_init tn ts pb wal"
  have fresh: "compiled ?e = None \<or> compiled ?e = Some (expected_suffix ?e)"
    by (simp add: QDBTableEngine_init_def)
  from engine_after_memo [OF assms fresh, of n] obtain c where
    c: "engine_after n ?e = ?e\<lparr>compiled := c\<rparr>" "c = None \<or> c = Some (expected_suffix ?e)"
    by blast
  have "valid_fields (?e\<lparr>compiled := c\<rparr>)"
    using assms by (simp add: valid_fields_memo)
  moreover have "compiled (?e\<lparr>compiled := c\<rparr>) = None
      \<or> compiled (?e\<lparr>compiled := c\<rparr>) = Some (expected_suffix (?e\<lparr>compiled := c\<rparr>))"
    using c(2) by (simp add: expected_suffix_memo)
  ultimately have "snd (get_table_suffix (?e\<lparr>compiled := c\<rparr>))
      = Inr (expected_suffix (?e\<lparr>compiled := c\<rparr>))"
    using get_table_suffix_consistent by (metis snd_conv)
  with c(1) have calls: "snd (get_table_suffix (engine_after n ?e)) = Inr (expected_suffix ?e)"
    by (simp add: expected_suffix_memo)
  have scenario:
    "snd (get_table_suffix (QDBTableEngine_init ''t'' (Some ''ts'') (Some DAY) True))
       = Inr ''TIMESTAMP(ts) PARTITION BY DAY WAL''"
    by (simp add: get_table_suffix_def QDBTableEngine_init_def Let_def is_partitioned_def
          append_timestamp_def append_partition_def append_wal_def)
  from calls scenario show ?thesis by blast
qed

theorem get_table_suffix_valid_witness:
  "valid_fields (QDBTableEngine_init ''trades'' (Some ''ts'') (Some HOUR) False)
   \<and> snd (get_table_suffix (engine_after 2
            (QDBTableEngine_init ''trades'' (Some ''ts'') (Some HOUR) False)))
       = Inr ''TIMESTAMP(ts) PARTITION BY HOUR''"
proof -
  let ?e = "QDBTableEngine_init ''trades'' (Some ''ts'') (Some HOUR) False"
  have v: "valid_fields ?e"
    by (simp add: valid_fields_def QDBTableEngine_init_def is_partitioned_def)
  have x: "expected_suffix ?e = ''TIMESTAMP(ts) PARTITION BY HOUR''"
    by (simp add: expected_suffix_def timestamp_clause_def partition_clause_def
          wal_clause_def QDBTableEngine_init_def)
  from get_table_suffix_valid [OF v, of 2] x
  have "snd (get_table_suffix (engine_after 2 ?e)) = Inr ''TIMESTAMP(ts) PARTITION BY HOUR''"
    by simp
  with v show ?thesis by blast
qed

text \<open>
  C2. An engine with the WAL flag set but no partitioning raises on the first call, after
  the memo has been set to the clauses built so far; the second call finds the memo and
  returns that partial suffix instead of raising.
\<close>

theorem get_table_suffix_invalid_second_call:
  "get_table_suffix (QDBTableEngine_init ''t'' (Some ''ts'') (Some NONE) True)
     = ((QDBTableEngine_init ''t'' (Some ''ts'') (Some NONE) True)
          \<lparr>compiled := Some ''TIMESTAMP(ts)''\<rparr>, Inl wal_error)
   \<and> get_table_suffix (fst (get_table_suffix
        (QDBTableEngine_init ''t'' (Some ''ts'') (Some NONE) True)))
     = ((QDBTableEngine_init ''t'' (Some ''ts'') (Some NONE) True)
          \<lparr>compiled := Some ''TIMESTAMP(ts)''\<rparr>, Inr ''TIMESTAMP(ts)'')"
  by (simp add: get_table_suffix_def QDBTableEngine_init_def Let_def is_partitioned_def
        append_timestamp_def append_partition_def append_wal_def)

text \<open>
  C9. After any call of \<open>get_table_suffix\<close>, whether it returned or raised, the memo field
  holds a string, and a further call on the engine it left behind returns that string,
  raises nothing and leaves the engine as it is.
\<close>

theorem get_table_suffix_memoised:
  "\<exists>s. compiled (fst (get_table_suffix e)) = Some s
     \<and> get_table_suffix (fst (get_table_suffix e)) = (fst (get_table_suffix e), Inr s)"
proof -
  obtain s where s: "compiled (fst (get_table_suffix e)) = Some s"
    using get_table_suffix_sets_memo by blast
  then have "get_table_suffix (fst (get_table_suffix e)) = (fst (get_table_suffix e), Inr s)"
    by (rule get_table_suffix_memo)
  with s show ?thesis by blast
qed

section \<open>Properties of the identifier quoter\<close>

lemma quote_identifier_strips:
  assumes "s \<noteq> []"
  shows "quote_identifier s
     = Some (CHR 0x27 # strip_trailing_quote (strip_leading_quote s) @ [CHR 0x27])"
proof (cases s)
  case Nil
  with assms show ?thesis by simp
next
  case (Cons c cs)
  show ?thesis
  proof (cases "cs = []")
    case True
    with Cons show ?thesis
      by (simp add: quote_identifier_def slice_def strip_leading_quote_def
            strip_trailing_quote_def Let_def)
  next
    case False
    then have l: "(c # cs) ! length cs = last cs"
      by (simp add: last_conv_nth nth_Cons')
    have b: "take (length cs - Suc 0) cs = butlast cs"
      by (simp add: butlast_conv_take)
    have b2: "take (length cs) (c # cs) = c # butlast cs"
      using False by (cases cs rule: rev_cases) auto
    from Cons False l b b2 show ?thesis
      by (simp add: quote_identifier_def slice_def strip_leading_quote_def
            strip_trailing_quote_def Let_def)
  qed
qed

lemma quote_identifier_wrapped:
  "quote_identifier (CHR 0x27 # t @ [CHR 0x27]) = Some (CHR 0x27 # t @ [CHR 0x27])"
  by (simp add: quote_identifier_def slice_def Let_def QUOTES_def nth_append)

text \<open>
  C10. The quoter returns \<open>None\<close> for the empty identifier. For a non-empty identifier it
  returns the identifier without one leading quote character, if there is one, and without
  one trailing quote character, if there is one, between single quotes. Applied to a result
  of its own it returns that result.
\<close>

theorem quote_identifier_idempotent:
  "quote_identifier [] = None
   \<and> (s \<noteq> [] \<longrightarrow>
        quote_identifier s
          = Some (CHR 0x27 # strip_trailing_quote (strip_leading_quote s) @ [CHR 0x27]))
   \<and> (quote_identifier s = Some r \<longrightarrow> quote_identifier r = Some r)"
proof -
  have empty: "quote_identifier [] = None"
    by (simp add: quote_identifier_def)
  have idem: "quote_identifier r = Some r" if a: "quote_identifier s = Some r"
  proof -
    from a have "s \<noteq> []" by (auto simp: quote_identifier_def)
    from quote_identifier_strips [OF this] a
    have "r = CHR 0x27 # strip_trailing_quote (strip_leading_quote s) @ [CHR 0x27]"
      by simp
    then show ?thesis by (simp only: quote_identifier_wrapped)
  qed
  from empty quote_identifier_strips idem show ?thesis by blast
qed

theorem quote_identifier_idempotent_witness:
  "CHR 0x22 # ''my col'' @ [CHR 0x22] \<noteq> []
   \<and> quote_identifier (CHR 0x22 # ''my col'' @ [CHR 0x22])
       = Some (CHR 0x27 # ''my col'' @ [CHR 0x27])
   \<and> quote_identifier (CHR 0x27 # ''my col'' @ [CHR 0x27])
       = Some (CHR 0x27 # ''my col'' @ [CHR 0x27])"
proof -
  let ?s = "CHR 0x22 # ''my col'' @ [CHR 0x22]"
  let ?r = "CHR 0x27 # ''my col'' @ [CHR 0x27]"
  have ne: "?s \<noteq> []" by simp
  have st: "strip_trailing_quote (strip_leading_quote ?s) = ''my col''"
    by (simp add: strip_leading_quote_def strip_trailing_quote_def QUOTES_def)
  from quote_identifier_idempotent [of ?s ?r] ne st
  have q: "quote_identifier ?s = Some ?r" by simp
  with quote_identifier_idempotent [of ?s ?r]
  have "quote_identifier ?r = Some ?r" by blast
  with ne q show ?thesis by blast
qed

section \<open>Properties of the DDL compiler\<close>

text \<open>
  C6. Whatever they are given, \<open>visit_create_schema\<close> and \<open>visit_drop_schema\<close> raise the
  exception that schemas are not supported, and so return no SQL text.
\<close>

theorem visit_schema_always_fails:
  "visit_create_schema create kw = Inl (Exception ''QuestDB does not support SCHEMAS'')
   \<and> visit_drop_schema drop_arg kw' = Inl (Exception ''QuestDB does not support SCHEMAS'')
   \<and> \<not> (\<exists>sql. visit_create_schema create kw = Inr sql)
   \<and> \<not> (\<exists>sql. visit_drop_schema drop_arg kw' = Inr sql)"
  by (simp add: visit_create_schema_def visit_drop_schema_def)

lemma column_specifications_all_qdb:
  "\<forall>c\<in>set cs. is_qdb_type c \<Longrightarrow>
   column_specifications f cs = Inr (map (rendered_spec f) cs)"
  by (induction cs)
     (auto simp: get_column_specification_def is_qdb_type_def rendered_spec_def
        split: column_type.splits)

lemma column_specifications_foreign:
  "\<exists>c\<in>set cs. \<not> is_qdb_type c \<Longrightarrow>
   column_specifications f cs
     = Inl (ArgumentError [Some ''Column type is not a valid QuestDB type''])"
  by (induction cs)
     (auto simp: get_column_specification_def is_qdb_type_def
        split: column_type.splits sum.splits)

lemma visit_create_table_engine_error:
  assumes "\<forall>c\<in>set (columns create). is_qdb_type c"
    and "engine (element create) = Some eng"
    and "snd (get_table_suffix eng) = Inl e"
  shows "snd (visit_create_table f create) = Inl e"
  using assms
  by (cases "get_table_suffix eng")
     (simp add: visit_create_table_def Let_def column_specifications_all_qdb)

text \<open>
  C4. When every column of the request carries one of the dialect's types and the table's
  engine yields a suffix, \<open>visit_create_table\<close> returns \<open>CREATE TABLE '<name>' (\<close>, the
  column specifications in column order separated by a comma and a blank, \<open>) \<close> and the
  suffix; when the engine raises instead, \<open>visit_create_table\<close> raises the engine's error.
  When some column carries another type it raises the argument error and returns no text,
  and the request is left as it was.
\<close>

theorem visit_create_table_text:
  "((\<forall>c\<in>set (columns create). is_qdb_type c)
      \<longrightarrow> engine (element create) = Some eng
      \<longrightarrow> snd (get_table_suffix eng) = Inr suffix
      \<longrightarrow> snd (visit_create_table f create)
            = Inr (create_table_text (fullname (element create))
                     (map (rendered_spec f) (columns create)) suffix))
   \<and> ((\<forall>c\<in>set (columns create). is_qdb_type c)
      \<longrightarrow> engine (element create) = Some eng
      \<longrightarrow> snd (get_table_suffix eng) = Inl e
      \<longrightarrow> snd (visit_create_table f create) = Inl e)
   \<and> ((\<exists>c\<in>set (columns create). \<not> is_qdb_type c)
      \<longrightarrow> visit_create_table f create
            = (create, Inl (ArgumentError [Some ''Column type is not a valid QuestDB type''])))"
proof -
  have ok: "snd (visit_create_table f create)
      = Inr (create_table_text (fullname (element create))
               (map (rendered_spec f) (columns create)) suffix)"
    if "\<forall>c\<in>set (columns create). is_qdb_type c"
      and "engine (element create) = Some eng"
      and "snd (get_table_suffix eng) = Inr suffix"
    using that
    by (cases "get_table_suffix eng")
       (simp add: visit_create_table_def Let_def column_specifications_all_qdb
          create_table_text_def)
  have bad: "visit_create_table f create
      = (create, Inl (ArgumentError [Some ''Column type is not a valid QuestDB type'']))"
    if "\<exists>c\<in>set (columns create). \<not> is_qdb_type c"
    using that
    by (simp add: visit_create_table_def Let_def column_specifications_foreign)
  from ok visit_create_table_engine_error bad show ?thesis by blast
qed

theorem visit_create_table_text_witness:
  "list_all is_qdb_type (columns trades_create)
   \<and> engine (element trades_create)
       = Some (QDBTableEngine_init ''trades'' (Some ''ts'') (Some DAY) True)
   \<and> snd (get_table_suffix (QDBTableEngine_init ''trades'' (Some ''ts'') (Some DAY) True))
       = Inr ''TIMESTAMP(ts) PARTITION BY DAY WAL''
   \<and> snd (visit_create_table name_and_type trades_create)
       = Inr (''CREATE TABLE '' @ [CHR 0x27] @ ''trades'' @ [CHR 0x27]
              @ '' (ts TIMESTAMP, price DOUBLE) TIMESTAMP(ts) PARTITION BY DAY WAL'')
   \<and> list_all is_qdb_type (columns trades_create_no_ts)
   \<and> engine (element trades_create_no_ts)
       = Some (QDBTableEngine_init ''trades'' None (Some DAY) True)
   \<and> snd (get_table_suffix (QDBTableEngine_init ''trades'' None (Some DAY) True))
       = Inl ts_error
   \<and> snd (visit_create_table name_and_type trades_create_no_ts) = Inl ts_error
   \<and> \<not> list_all is_qdb_type (columns trades_create_foreign)
   \<and> snd (visit_create_table name_and_type trades_create_foreign)
       = Inl (ArgumentError [Some ''Column type is not a valid QuestDB type''])"
proof -
  let ?eng = "QDBTableEngine_init ''trades'' (Some ''ts'') (Some DAY) True"
  let ?no_ts = "QDBTableEngine_init ''trades'' None (Some DAY) True"
  have h1: "\<forall>c\<in>set (columns trades_create). is_qdb_type c"
    by (simp add: trades_create_def is_qdb_type_def)
  have h2: "engine (element trades_create) = Some ?eng"
    by (simp add: trades_create_def trades_table_def)
  have h3: "snd (get_table_suffix ?eng) = Inr ''TIMESTAMP(ts) PARTITION BY DAY WAL''"
    by (simp add: get_table_suffix_def QDBTableEngine_init_def Let_def is_partitioned_def
          append_timestamp_def append_partition_def append_wal_def)
  have g1: "\<forall>c\<in>set (columns trades_create_no_ts). is_qdb_type c"
    by (simp add: trades_create_no_ts_def trades_create_def is_qdb_type_def)
  have g2: "engine (element trades_create_no_ts) = Some ?no_ts"
    by (simp add: trades_create_no_ts_def trades_create_def trades_table_def)
  have g3: "snd (get_table_suffix ?no_ts) = Inl ts_error"
    by (simp add: get_table_suffix_def QDBTableEngine_init_def Let_def
          append_timestamp_def append_partition_def)
  have h4: "\<exists>c\<in>set (columns trades_create_foreign). \<not> is_qdb_type c"
    by (simp add: trades_create_foreign_def trades_create_def is_qdb_type_def)
  have t: "create_table_text (fullname (element trades_create))
             (map (rendered_spec name_and_type) (columns trades_create))
             ''TIMESTAMP(ts) PARTITION BY DAY WAL''
           = ''CREATE TABLE '' @ [CHR 0x27] @ ''trades'' @ [CHR 0x27]
              @ '' (ts TIMESTAMP, price DOUBLE) TIMESTAMP(ts) PARTITION BY DAY WAL''"
    by (simp add: create_table_text_def trades_create_def trades_table_def rendered_spec_def
          name_and_type_def timestamp_type_def double_type_def)
  from visit_create_table_text
         [of trades_create ?eng "''TIMESTAMP(ts) PARTITION BY DAY WAL''" name_and_type]
       h1 h2 h3 t
  have r1: "snd (visit_create_table name_and_type trades_create)
       = Inr (''CREATE TABLE '' @ [CHR 0x27] @ ''trades'' @ [CHR 0x27]
              @ '' (ts TIMESTAMP, price DOUBLE) TIMESTAMP(ts) PARTITION BY DAY WAL'')"
    by simp
  from visit_create_table_text [of trades_create_no_ts ?no_ts _ name_and_type ts_error]
       g1 g2 g3
  have r3: "snd (visit_create_table name_and_type trades_create_no_ts) = Inl ts_error"
    by blast
  from visit_create_table_text [of trades_create_foreign ?eng "[]" name_and_type] h4
  have r2: "snd (visit_create_table name_and_type trades_create_foreign)
       = Inl (ArgumentError [Some ''Column type is not a valid QuestDB type''])"
    by simp
  from h1 h2 h3 r1 g1 g2 g3 r3 h4 r2 show ?thesis by (simp add: list_all_iff)
qed

text \<open>
  The claim as it is worded asks only that the columns carry the dialect's types. A
  request whose columns do, for a table whose engine is partitioned by day without a
  designated timestamp: the engine refuses to compile its suffix and \<open>visit_create_table\<close>
  raises that argument error instead of returning the statement.
\<close>

theorem visit_create_table_invalid_engine_counterexample:
  "list_all is_qdb_type (columns trades_create_no_ts)
   \<and> snd (visit_create_table name_and_type trades_create_no_ts)
       = Inl (ArgumentError
                [None, Some ''Designated timestamp must be specified for partitioned table''])"
  by (simp add: visit_create_table_def Let_def trades_create_no_ts_def trades_create_def
        trades_table_def get_column_specification_def get_table_suffix_def
        QDBTableEngine_init_def append_timestamp_def append_partition_def ts_error_def
        is_qdb_type_def)

section \<open>Properties of the type registry\<close>

lemma find_registered:
  "distinct (map database_type_name registry) \<Longrightarrow> T \<in> set registry \<Longrightarrow>
   find (\<lambda>d. database_type_name d = database_type_name T) registry = Some T"
  by (induction registry) auto

lemma resolve_registered:
  "distinct (map database_type_name registry) \<Longrightarrow> T \<in> set registry \<Longrightarrow>
   resolve_type_from_name registry (database_type_name T) = Inr T"
  by (simp add: resolve_type_from_name_def find_registered)

lemma find_in_set: "find P xs = Some x \<Longrightarrow> x \<in> set xs"
  by (induction xs) (auto split: if_splits)

lemma resolve_in_registry:
  "resolve_type_from_name registry n = Inr T \<Longrightarrow> T \<in> set registry"
  by (auto simp: resolve_type_from_name_def descriptor_of_def
        split: option.splits dest: find_in_set)

lemma resolve_no_entry:
  "\<not> has_registry_entry registry n \<Longrightarrow>
   resolve_type_from_name registry n = Inl (UnknownType n)"
proof -
  assume a: "\<not> has_registry_entry registry n"
  then have "n \<notin> set (map database_type_name registry)"
    by (simp add: has_registry_entry_def)
  then have f: "find (\<lambda>d. database_type_name d = n) registry = None"
    by (auto simp: find_None_iff)
  from a show ?thesis
    by (auto simp: resolve_type_from_name_def has_registry_entry_def f split: option.splits)
qed

lemma QUESTDB_TYPES_distinct: "distinct (map database_type_name QUESTDB_TYPES)"
  by (simp add: QUESTDB_TYPES_def)

lemma geohash_descriptors:
  "geohash_class bits = Some cls \<Longrightarrow> \<exists>d. descriptor_of QUESTDB_TYPES cls = Some d"
  by (auto simp: geohash_class_def descriptor_of_def QUESTDB_TYPES_def split: if_splits)

lemma resolve_entry:
  assumes "has_registry_entry QUESTDB_TYPES n"
  shows "\<exists>T\<in>set QUESTDB_TYPES. resolve_type_from_name QUESTDB_TYPES n = Inr T"
proof -
  have "\<exists>T. resolve_type_from_name QUESTDB_TYPES n = Inr T"
  proof (cases "find (\<lambda>d. database_type_name d = n) QUESTDB_TYPES")
    case (Some d)
    then show ?thesis by (simp add: resolve_type_from_name_def)
  next
    case None
    then have "n \<notin> set (map database_type_name QUESTDB_TYPES)"
      by (auto simp: find_None_iff)
    with assms obtain bits cls where
      b: "geohash_bits n = Some bits" "geohash_class bits = Some cls"
      by (auto simp: has_registry_entry_def split: option.splits)
    from geohash_descriptors [OF b(2)] obtain d where
      "descriptor_of QUESTDB_TYPES cls = Some d" by blast
    with None b show ?thesis by (simp add: resolve_type_from_name_def)
  qed
  then show ?thesis using resolve_in_registry by blast
qed

lemma resolve_geohash_4c:
  "resolve_type_from_name QUESTDB_TYPES ''GEOHASH(4c)''
     = Inr \<lparr>database_type_name = ''GEOHASH(6c)'', abstract_type = QGeohashInt\<rparr>"
  by code_simp

lemma has_entry_geohash_4c: "has_registry_entry QUESTDB_TYPES ''GEOHASH(4c)''"
  by code_simp

lemma no_entry_binary: "\<not> has_registry_entry QUESTDB_TYPES ''BINARY''"
  by code_simp

lemma resolve_binary:
  "resolve_type_from_name QUESTDB_TYPES ''BINARY'' = Inl (UnknownType ''BINARY'')"
  using no_entry_binary by (rule resolve_no_entry)

lemma resolve_timestamp: "resolve_type_from_name QUESTDB_TYPES ''TIMESTAMP'' = Inr timestamp_type"
  by (simp add: resolve_type_from_name_def QUESTDB_TYPES_def timestamp_type_def)

lemma resolve_double: "resolve_type_from_name QUESTDB_TYPES ''DOUBLE'' = Inr double_type"
  by (simp add: resolve_type_from_name_def QUESTDB_TYPES_def double_type_def)

text \<open>
  C5. Resolving the database type name of a type of the registry gives that type back.
  A name that has an entry, the geohash names of every precision that has a class among
  them, resolves to a type of the registry; \<open>GEOHASH(4c)\<close>, twenty bits, resolves to the
  geohash type of integer width. A name that has no entry fails with the unknown-type
  error.
\<close>

theorem resolve_type_round_trip:
  "(T \<in> set QUESTDB_TYPES
      \<longrightarrow> resolve_type_from_name QUESTDB_TYPES (database_type_name T) = Inr T)
   \<and> (has_registry_entry QUESTDB_TYPES n
      \<longrightarrow> (\<exists>T'\<in>set QUESTDB_TYPES. resolve_type_from_name QUESTDB_TYPES n = Inr T'))
   \<and> (\<not> has_registry_entry QUESTDB_TYPES n
      \<longrightarrow> resolve_type_from_name QUESTDB_TYPES n = Inl (UnknownType n))
   \<and> resolve_type_from_name QUESTDB_TYPES ''GEOHASH(4c)''
       = Inr \<lparr>database_type_name = ''GEOHASH(6c)'', abstract_type = QGeohashInt\<rparr>"
  using resolve_registered [OF QUESTDB_TYPES_distinct] resolve_entry resolve_no_entry
    resolve_geohash_4c
  by blast

theorem resolve_type_round_trip_witness:
  "timestamp_type \<in> set QUESTDB_TYPES
   \<and> resolve_type_from_name QUESTDB_TYPES (database_type_name timestamp_type)
       = Inr timestamp_type
   \<and> has_registry_entry QUESTDB_TYPES ''GEOHASH(4c)''
   \<and> (\<exists>T'\<in>set QUESTDB_TYPES. resolve_type_from_name QUESTDB_TYPES ''GEOHASH(4c)'' = Inr T')
   \<and> \<not> has_registry_entry QUESTDB_TYPES ''BINARY''
   \<and> resolve_type_from_name QUESTDB_TYPES ''BINARY'' = Inl (UnknownType ''BINARY'')"
proof -
  have m: "timestamp_type \<in> set QUESTDB_TYPES"
    by (simp add: QUESTDB_TYPES_def timestamp_type_def)
  from resolve_type_round_trip [of timestamp_type "''GEOHASH(4c)''"] m has_entry_geohash_4c
  have a: "resolve_type_from_name QUESTDB_TYPES (database_type_name timestamp_type)
             = Inr timestamp_type"
    and b: "\<exists>T'\<in>set QUESTDB_TYPES. resolve_type_from_name QUESTDB_TYPES ''GEOHASH(4c)'' = Inr T'"
    by blast+
  from resolve_type_round_trip [of timestamp_type "''BINARY''"] no_entry_binary
  have c: "resolve_type_from_name QUESTDB_TYPES ''BINARY'' = Inl (UnknownType ''BINARY'')"
    by blast
  from m a has_entry_geohash_4c b no_entry_binary c show ?thesis by blast
qed

section \<open>Properties of the cursor\<close>

lemma remove_public_schema_unchanged:
  "\<forall>i \<le> length q. \<not> starts_with ''public.'' (drop i q) \<Longrightarrow> remove_public_schema q = q"
proof (induction q)
  case Nil
  then show ?case by simp
next
  case (Cons c cs)
  from Cons.prems have here: "\<not> starts_with ''public.'' (c # cs)"
    by (metis drop0 le0)
  have "\<forall>i \<le> length cs. \<not> starts_with ''public.'' (drop i cs)"
  proof (intro allI impI)
    fix i assume "i \<le> length cs"
    then have "Suc i \<le> length (c # cs)" by simp
    with Cons.prems have "\<not> starts_with ''public.'' (drop (Suc i) (c # cs))" by blast
    then show "\<not> starts_with ''public.'' (drop i cs)" by simp
  qed
  with Cons.IH have "remove_public_schema cs = cs" by blast
  with here show ?case by auto
qed

text \<open>
  C7. \<open>Cursor.execute\<close> dispatches the rewritten query, with the variables as they are.
  The rewrite turns \<open>SELECT * FROM public.t\<close> into \<open>SELECT * FROM t\<close> and leaves
  \<open>SELECT * FROM other.t\<close> as it is.
\<close>

theorem execute_strips_public_schema:
  "Cursor_execute super_execute query vars = super_execute (remove_public_schema query) vars
   \<and> Cursor_execute (\<lambda>q v. (q, v)) ''SELECT * FROM public.t'' vars = (''SELECT * FROM t'', vars)
   \<and> Cursor_execute (\<lambda>q v. (q, v)) ''SELECT * FROM other.t'' vars
       = (''SELECT * FROM other.t'', vars)"
  by (simp add: Cursor_execute_def)

section \<open>Properties of the schema inspector\<close>

lemma PartitionBy_lookup_name: "PartitionBy_lookup (partition_name p) = Some p"
  by (cases p) (simp_all add: PartitionBy_lookup_def)

lemma append_column_fresh:
  "column_name c \<notin> set (map column_name (table_columns table)) \<Longrightarrow>
   append_column table c = table\<lparr>table_columns := table_columns table @ [c]\<rparr>"
  by (simp add: append_column_def)

lemma reflect_columns_all:
  assumes "\<forall>r\<in>set rs. \<not> skipped_by_include inc (fst r) \<and> \<not> skipped_by_exclude exc (fst r)"
    and "\<forall>r\<in>set rs. \<exists>t. resolve (snd r) = Inr t"
    and "distinct (map fst rs)"
    and "\<forall>r\<in>set rs. fst r \<notin> set (map column_name (table_columns table))"
  shows "\<exists>new. reflect_columns upper resolve ts inc exc table rs
             = (table\<lparr>table_columns := table_columns table @ new\<rparr>, Inr ())
           \<and> map column_name new = map fst rs
           \<and> map primary_key new = map (\<lambda>r. is_designated upper ts (fst r)) rs
           \<and> map (\<lambda>c. Inr (column_type c)) new
               = map (\<lambda>r. map_sum id QDBType (resolve (snd r))) rs"
  using assms
proof (induction rs arbitrary: table)
  case Nil
  then show ?case by simp
next
  case (Cons row rest)
  from Cons.prems obtain t where t: "resolve (snd row) = Inr t" by auto
  from Cons.prems have keep:
    "\<not> skipped_by_include inc (fst row)" "\<not> skipped_by_exclude exc (fst row)" by auto
  let ?c = "\<lparr>column_name = fst row, column_type = QDBType t,
             primary_key = is_designated upper ts (fst row)\<rparr>"
  let ?table = "append_column table ?c"
  from Cons.prems(4) have app:
    "?table = table\<lparr>table_columns := table_columns table @ [?c]\<rparr>"
    by (simp add: append_column_fresh)
  have fresh: "\<forall>r\<in>set rest. fst r \<notin> set (map column_name (table_columns ?table))"
  proof
    fix r assume r: "r \<in> set rest"
    from Cons.prems(3) have "fst row \<notin> fst ` set rest" by simp
    moreover from r have "fst r \<in> fst ` set rest" by (rule imageI)
    ultimately have "fst r \<noteq> fst row" by metis
    moreover from r Cons.prems(4)
    have "fst r \<notin> set (map column_name (table_columns table))" by simp
    ultimately show "fst r \<notin> set (map column_name (table_columns ?table))"
      using app by simp
  qed
  from Cons.prems have
    "\<forall>r\<in>set rest. \<not> skipped_by_include inc (fst r) \<and> \<not> skipped_by_exclude exc (fst r)"
    "\<forall>r\<in>set rest. \<exists>t. resolve (snd r) = Inr t"
    "distinct (map fst rest)" by auto
  from Cons.IH [OF this fresh] obtain new where new:
    "reflect_columns upper resolve ts inc exc ?table rest
       = (?table\<lparr>table_columns := table_columns ?table @ new\<rparr>, Inr ())"
    "map column_name new = map fst rest"
    "map primary_key new = map (\<lambda>r. is_designated upper ts (fst r)) rest"
    "map (\<lambda>c. Inr (column_type c)) new = map (\<lambda>r. map_sum id QDBType (resolve (snd r))) rest"
    by blast
  have step: "reflect_columns upper resolve ts inc exc table (row # rest)
      = reflect_columns upper resolve ts inc exc ?table rest"
    using t keep by (cases "is_designated upper ts (fst row)") (simp_all add: Let_def)
  have upd: "?table\<lparr>table_columns := table_columns ?table @ new\<rparr>
      = table\<lparr>table_columns := table_columns table @ (?c # new)\<rparr>"
    by (simp add: app)
  have "reflect_columns upper resolve ts inc exc table (row # rest)
      = (table\<lparr>table_columns := table_columns table @ (?c # new)\<rparr>, Inr ())"
    using step new(1) upd by simp
  moreover have "map column_name (?c # new) = map fst (row # rest)"
    using new(2) by simp
  moreover have "map primary_key (?c # new)
      = map (\<lambda>r. is_designated upper ts (fst r)) (row # rest)"
    using new(3) by simp
  moreover have "map (\<lambda>c. Inr (column_type c)) (?c # new)
      = map (\<lambda>r. map_sum id QDBType (resolve (snd r))) (row # rest)"
    using new(4) t by simp
  ultimately show ?case by blast
qed

lemma reflect_columns_raises:
  assumes "\<forall>x\<in>set front. \<exists>t. resolve (snd x) = Inr t"
    and "\<not> skipped_by_include inc (fst r)" and "\<not> skipped_by_exclude exc (fst r)"
    and "resolve (snd r) = Inl e"
  shows "snd (reflect_columns upper resolve ts inc exc table (front @ r # after)) = Inl e"
  using assms
proof (induction front arbitrary: table)
  case Nil
  then show ?case by (simp add: Let_def)
next
  case (Cons x front)
  from Cons.prems obtain t where t: "resolve (snd x) = Inr t" by auto
  from Cons.prems have rest: "\<forall>y\<in>set front. \<exists>t. resolve (snd y) = Inr t" by simp
  note IH = Cons.IH [OF rest Cons.prems(2) Cons.prems(3) Cons.prems(4)]
  show ?case
    using t IH by (simp add: Let_def)
qed

text \<open>
  C3. The row of the table-level query reports a designated timestamp, no row of the
  column query is filtered out, and the names of the rows are pairwise distinct and not
  yet names of columns of the table. Then, when the resolver returns a type for every row,
  \<open>reflect_table\<close> raises nothing and appends one column per row, in row order, with the
  row's name, and a column is marked primary key if and only if its name and the
  designated timestamp's name are equal in upper case; and when the resolver raises for
  a row, having returned for the rows before it, \<open>reflect_table\<close> raises that exception.
\<close>

theorem reflect_table_appends_rows:
  assumes "truthy tables_result"
    and "rows tables_result = attrs # others"
    and "reports_timestamp attrs ts"
    and "\<forall>r\<in>set (rows columns_result).
           \<not> skipped_by_include inc (fst r) \<and> \<not> skipped_by_exclude exc (fst r)"
    and "distinct (map fst (rows columns_result))"
    and "\<forall>r\<in>set (rows columns_result).
           fst r \<notin> set (map column_name (table_columns table))"
  shows "((\<forall>r\<in>set (rows columns_result). \<exists>t. resolve (snd r) = Inr t) \<longrightarrow>
          snd (reflect_table upper resolve tables_result columns_result table inc exc) = Inr ()
          \<and> (\<exists>new.
               table_columns
                 (fst (reflect_table upper resolve tables_result columns_result table inc exc))
                 = table_columns table @ new
             \<and> length new = length (rows columns_result)
             \<and> map column_name new = map fst (rows columns_result)
             \<and> (\<forall>c\<in>set new. primary_key c \<longleftrightarrow> upper (column_name c) = upper ts)))
     \<and> (rows columns_result = front @ r # after
          \<longrightarrow> (\<forall>x\<in>set front. \<exists>t. resolve (snd x) = Inr t)
          \<longrightarrow> resolve (snd r) = Inl e
          \<longrightarrow> snd (reflect_table upper resolve tables_result columns_result table inc exc)
                = Inl e)"
proof -
  from assms(3) have ts: "designatedTimestamp attrs = Some ts" "ts \<noteq> []"
    by (simp_all add: reports_timestamp_def)
  let ?R = "reflect_table upper resolve tables_result columns_result table inc exc"
  let ?loop = "reflect_columns upper resolve (Some ts) inc exc table (rows columns_result)"
  have unfold: "?R = (case ?loop of
        (table', Inl e) \<Rightarrow> (table', Inl e)
      | (table', Inr u) \<Rightarrow>
          (table'\<lparr>engine := Some (QDBTableEngine_init (table_name table) (Some ts)
                                (Some (partitionBy attrs))
                                (if walEnabled attrs then True else False)),
                  metadata := MetaData []\<rparr>, Inr ()))"
    using assms(1,2) ts(1)
    by (simp add: reflect_table_def first_row_def Let_def PartitionBy_lookup_name
          del: if_bool_eq_conj cong: if_cong)
  have good: "snd ?R = Inr ()
      \<and> (\<exists>new. table_columns (fst ?R) = table_columns table @ new
            \<and> length new = length (rows columns_result)
            \<and> map column_name new = map fst (rows columns_result)
            \<and> (\<forall>c\<in>set new. primary_key c \<longleftrightarrow> upper (column_name c) = upper ts))"
    if res: "\<forall>r\<in>set (rows columns_result). \<exists>t. resolve (snd r) = Inr t"
  proof -
    from reflect_columns_all [OF assms(4) res assms(5) assms(6), of upper "Some ts"]
    obtain new where new:
      "?loop = (table\<lparr>table_columns := table_columns table @ new\<rparr>, Inr ())"
      "map column_name new = map fst (rows columns_result)"
      "map primary_key new
         = map (\<lambda>r. is_designated upper (Some ts) (fst r)) (rows columns_result)"
      by blast
    have run: "?R = (table\<lparr>table_columns := table_columns table @ new,
               engine := Some (QDBTableEngine_init (table_name table) (Some ts)
                                 (Some (partitionBy attrs))
                                (if walEnabled attrs then True else False)),
               metadata := MetaData []\<rparr>, Inr ())"
      using unfold new(1) by simp
    have len: "length new = length (rows columns_result)"
      using new(2) by (metis length_map)
    have pk: "primary_key c \<longleftrightarrow> upper (column_name c) = upper ts" if "c \<in> set new" for c
    proof -
      from that obtain i where i: "i < length new" "new ! i = c"
        by (auto simp: in_set_conv_nth)
      with len have i': "i < length (rows columns_result)" by simp
      from i have "primary_key c = map primary_key new ! i" by simp
      also have "\<dots> = is_designated upper (Some ts) (fst (rows columns_result ! i))"
        using new(3) i' by simp
      also have "fst (rows columns_result ! i) = map fst (rows columns_result) ! i"
        using i' by simp
      also have "\<dots> = column_name c"
        using new(2) i by (metis nth_map)
      finally show ?thesis
        using ts(2) by (auto simp: is_designated_def)
    qed
    from run len new(2) pk show ?thesis by auto
  qed
  have bad: "snd ?R = Inl e"
    if split: "rows columns_result = front @ r # after"
      and front: "\<forall>x\<in>set front. \<exists>t. resolve (snd x) = Inr t"
      and r: "resolve (snd r) = Inl e"
  proof -
    from assms(4) split have keep:
      "\<not> skipped_by_include inc (fst r)" "\<not> skipped_by_exclude exc (fst r)" by auto
    from reflect_columns_raises [OF front keep r, of upper "Some ts" table after] split
    have "snd ?loop = Inl e" by simp
    then show ?thesis
      using unfold by (cases ?loop) (auto split: sum.splits)
  qed
  from good bad show ?thesis by blast
qed

lemma designated_ts: "is_designated ascii_upper (Some ''TS'') ''ts''"
  by code_simp

lemma not_designated_price: "\<not> is_designated ascii_upper (Some ''TS'') ''price''"
  by code_simp

theorem reflect_table_appends_rows_witness:
  "truthy trades_attrs
   \<and> rows trades_attrs
       = [\<lparr>designatedTimestamp = Some ''TS'', partitionBy = DAY, walEnabled = True\<rparr>]
   \<and> reports_timestamp
         \<lparr>designatedTimestamp = Some ''TS'', partitionBy = DAY, walEnabled = True\<rparr> ''TS''
   \<and> list_all (\<lambda>r. \<not> skipped_by_include None (fst r)
                     \<and> \<not> skipped_by_exclude (Some [''volume'']) (fst r)) (rows trades_columns)
   \<and> distinct (map fst (rows trades_columns))
   \<and> list_all (\<lambda>r. fst r \<notin> set (map column_name (table_columns trades_table)))
         (rows trades_columns)
   \<and> list_all (\<lambda>r. \<exists>t. resolve_type_from_name QUESTDB_TYPES (snd r) = Inr t)
         (rows trades_columns)
   \<and> snd (reflect_table ascii_upper (resolve_type_from_name QUESTDB_TYPES) trades_attrs
            trades_columns trades_table None (Some [''volume''])) = Inr ()
   \<and> map column_name (table_columns (fst (reflect_table ascii_upper
            (resolve_type_from_name QUESTDB_TYPES) trades_attrs trades_columns trades_table
            None (Some [''volume'']))))
       = [''ts'', ''price'']
   \<and> map primary_key (table_columns (fst (reflect_table ascii_upper
            (resolve_type_from_name QUESTDB_TYPES) trades_attrs trades_columns trades_table
            None (Some [''volume'']))))
       = [True, False]
   \<and> rows trades_columns_binary = [(''ts'', ''TIMESTAMP'')] @ (''payload'', ''BINARY'') # []
   \<and> resolve_type_from_name QUESTDB_TYPES ''BINARY'' = Inl (UnknownType ''BINARY'')
   \<and> snd (reflect_table ascii_upper (resolve_type_from_name QUESTDB_TYPES) trades_attrs
            trades_columns_binary trades_table None (Some [''volume'']))
       = Inl (UnknownType ''BINARY'')"
proof -
  let ?attrs = "\<lparr>designatedTimestamp = Some ''TS'', partitionBy = DAY, walEnabled = True\<rparr>"
  let ?resolve = "resolve_type_from_name QUESTDB_TYPES"
  let ?R = "reflect_table ascii_upper ?resolve trades_attrs trades_columns
              trades_table None (Some [''volume''])"
  let ?B = "reflect_table ascii_upper ?resolve trades_attrs trades_columns_binary
              trades_table None (Some [''volume''])"
  have h1: "truthy trades_attrs" by (simp add: trades_attrs_def)
  have h2: "rows trades_attrs = ?attrs # []" by (simp add: trades_attrs_def)
  have h3: "reports_timestamp ?attrs ''TS''" by (simp add: reports_timestamp_def)
  have h5: "\<forall>r\<in>set (rows trades_columns).
      \<not> skipped_by_include None (fst r) \<and> \<not> skipped_by_exclude (Some [''volume'']) (fst r)"
    by (simp add: trades_columns_def skipped_by_include_def skipped_by_exclude_def)
  have h6: "distinct (map fst (rows trades_columns))"
    by (simp add: trades_columns_def)
  have h7: "\<forall>r\<in>set (rows trades_columns).
      fst r \<notin> set (map column_name (table_columns trades_table))"
    by (simp add: trades_table_def)
  have h8: "\<forall>r\<in>set (rows trades_columns). \<exists>t. ?resolve (snd r) = Inr t"
    by (simp add: trades_columns_def resolve_timestamp resolve_double)
  from reflect_table_appends_rows
         [where resolve = ?resolve and upper = ascii_upper, OF h1 h2 h3 h5 h6 h7] h8
  obtain new where ok: "snd ?R = Inr ()"
    and new: "table_columns (fst ?R) = table_columns trades_table @ new"
      "map column_name new = map fst (rows trades_columns)"
      "\<forall>c\<in>set new. primary_key c \<longleftrightarrow> ascii_upper (column_name c) = ascii_upper ''TS''"
    by blast
  have names: "map column_name new = [''ts'', ''price'']"
    using new(2) by (simp add: trades_columns_def)
  then obtain a b where ab: "new = [a, b]" "column_name a = ''ts''" "column_name b = ''price''"
    by auto
  have up: "ascii_upper ''ts'' = ascii_upper ''TS''" "ascii_upper ''price'' \<noteq> ascii_upper ''TS''"
    by code_simp+
  from new(3) ab up have "primary_key a" "\<not> primary_key b" by auto
  with ab have pks: "map primary_key new = [True, False]" by simp
  have cols: "table_columns (fst ?R) = new"
    using new(1) by (simp add: trades_table_def)
  have b5: "\<forall>r\<in>set (rows trades_columns_binary).
      \<not> skipped_by_include None (fst r) \<and> \<not> skipped_by_exclude (Some [''volume'']) (fst r)"
    by (simp add: trades_columns_binary_def skipped_by_include_def skipped_by_exclude_def)
  have b6: "distinct (map fst (rows trades_columns_binary))"
    by (simp add: trades_columns_binary_def)
  have b7: "\<forall>r\<in>set (rows trades_columns_binary).
      fst r \<notin> set (map column_name (table_columns trades_table))"
    by (simp add: trades_table_def)
  have b8: "rows trades_columns_binary = [(''ts'', ''TIMESTAMP'')] @ (''payload'', ''BINARY'') # []"
    by (simp add: trades_columns_binary_def)
  have b9: "\<forall>x\<in>set [(''ts'', ''TIMESTAMP'')]. \<exists>t. ?resolve (snd x) = Inr t"
    by (simp add: resolve_timestamp)
  have b10: "?resolve (snd (''payload'', ''BINARY'')) = Inl (UnknownType ''BINARY'')"
    by (simp add: resolve_binary)
  from reflect_table_appends_rows
         [where resolve = ?resolve and upper = ascii_upper
            and front = "[(''ts'', ''TIMESTAMP'')]" and r = "(''payload'', ''BINARY'')"
            and after = "[]" and e = "UnknownType ''BINARY''",
          OF h1 h2 h3 b5 b6 b7]
       b8 b9 b10
  have raised: "snd ?B = Inl (UnknownType ''BINARY'')" by blast
  from h1 h2 h3 h5 h6 h7 h8 ok names pks cols b8 raised resolve_binary
  show ?thesis by (simp add: list_all_iff)
qed

text \<open>
  The claim as it is worded speaks of every table. A table declared with a \<open>price\<close> column
  and then reflected: the column query returns two rows, and the table ends with two
  columns, not three, since the reflected \<open>price\<close> column takes the place of the declared
  one instead of being appended.
\<close>

theorem reflect_table_existing_column_counterexample:
  "length (table_columns trades_declared) = 1
   \<and> length (rows trades_columns) = 2
   \<and> snd (reflect_table ascii_upper (resolve_type_from_name QUESTDB_TYPES) trades_attrs
            trades_columns trades_declared None None) = Inr ()
   \<and> length (table_columns (fst (reflect_table ascii_upper
            (resolve_type_from_name QUESTDB_TYPES) trades_attrs trades_columns trades_declared
            None None))) = 2"
  by (simp add: reflect_table_def first_row_def Let_def trades_attrs_def
        trades_columns_def trades_declared_def trades_table_def PartitionBy_lookup_def
        skipped_by_include_def skipped_by_exclude_def resolve_timestamp resolve_double
        designated_ts not_designated_price append_column_def)

lemma resolver_cases:
  "(\<forall>r\<in>set rs. \<exists>t. resolve (snd r) = Inr t)
   \<or> (\<exists>front r after e. rs = front @ r # after
         \<and> (\<forall>x\<in>set front. \<exists>t. resolve (snd x) = Inr t) \<and> resolve (snd r) = Inl e)"
proof (induction rs)
  case Nil
  then show ?case by simp
next
  case (Cons x xs)
  show ?case
  proof (cases "resolve (snd x)")
    case (Inl e)
    then have "x # xs = [] @ x # xs \<and> (\<forall>y\<in>set []. \<exists>t. resolve (snd y) = Inr t)
        \<and> resolve (snd x) = Inl e" by simp
    then show ?thesis by blast
  next
    case (Inr t)
    from Cons.IH show ?thesis
    proof
      assume "\<forall>r\<in>set xs. \<exists>t. resolve (snd r) = Inr t"
      with Inr show ?thesis by simp
    next
      assume "\<exists>front r after e. xs = front @ r # after
          \<and> (\<forall>y\<in>set front. \<exists>t. resolve (snd y) = Inr t) \<and> resolve (snd r) = Inl e"
      then obtain front r after e where f: "xs = front @ r # after"
        "\<forall>y\<in>set front. \<exists>t. resolve (snd y) = Inr t" "resolve (snd r) = Inl e"
        by blast
      with Inr have "x # xs = (x # front) @ r # after
          \<and> (\<forall>y\<in>set (x # front). \<exists>t. resolve (snd y) = Inr t) \<and> resolve (snd r) = Inl e"
        by simp
      then show ?thesis by blast
    qed
  qed
qed

lemma column_infos_all:
  assumes "\<forall>r\<in>set rs. \<exists>t. resolve (snd r) = Inr t"
  shows "\<exists>infos. column_infos resolve rs = Inr infos
           \<and> map info_name infos = map fst rs
           \<and> map (\<lambda>d. Inr (info_type d)) infos = map (\<lambda>r. resolve (snd r)) rs
           \<and> (\<forall>d\<in>set infos. nullable d \<and> \<not> autoincrement d \<and> persisted d)"
  using assms
proof (induction rs)
  case Nil
  then show ?case by simp
next
  case (Cons row rest)
  from Cons.prems obtain t where t: "resolve (snd row) = Inr t" by auto
  from Cons obtain infos where infos:
    "column_infos resolve rest = Inr infos"
    "map info_name infos = map fst rest"
    "map (\<lambda>d. Inr (info_type d)) infos = map (\<lambda>r. resolve (snd r)) rest"
    "\<forall>d\<in>set infos. nullable d \<and> \<not> autoincrement d \<and> persisted d"
    by auto
  let ?d = "\<lparr>info_name = fst row, info_type = t, nullable = True,
             autoincrement = False, persisted = True\<rparr>"
  have "column_infos resolve (row # rest) = Inr (?d # infos)"
    using t infos(1) by simp
  moreover have "map info_name (?d # infos) = map fst (row # rest)"
    using infos(2) by simp
  moreover have "map (\<lambda>d. Inr (info_type d)) (?d # infos)
      = map (\<lambda>r. resolve (snd r)) (row # rest)"
    using infos(3) t by simp
  moreover have "\<forall>d\<in>set (?d # infos). nullable d \<and> \<not> autoincrement d \<and> persisted d"
    using infos(4) by simp
  ultimately show ?case by blast
qed

lemma column_infos_raises:
  assumes "\<forall>x\<in>set front. \<exists>t. resolve (snd x) = Inr t" and "resolve (snd r) = Inl e"
  shows "column_infos resolve (front @ r # after) = Inl e"
  using assms
proof (induction front)
  case Nil
  then show ?case by simp
next
  case (Cons x front)
  from Cons.prems obtain t where "resolve (snd x) = Inr t" by auto
  with Cons show ?case by simp
qed

text \<open>
  C8. The result of the column query is true. When the resolver returns a type for every
  row, \<open>get_columns\<close> returns one dictionary per row, in row order, with the row's name
  and the resolved type, in which \<open>nullable\<close> is true, \<open>autoincrement\<close> is false and
  \<open>persisted\<close> is true; when the resolver raises for a row, having returned for the rows
  before it, \<open>get_columns\<close> raises that exception.
\<close>

theorem get_columns_one_per_row:
  assumes "truthy columns_result"
  shows "((\<forall>r\<in>set (rows columns_result). \<exists>t. resolve (snd r) = Inr t) \<longrightarrow>
          (\<exists>infos. get_columns resolve tname columns_result = Inr infos
             \<and> length infos = length (rows columns_result)
             \<and> map info_name infos = map fst (rows columns_result)
             \<and> map (\<lambda>d. Inr (info_type d)) infos
                 = map (\<lambda>r. resolve (snd r)) (rows columns_result)
             \<and> (\<forall>d\<in>set infos. nullable d \<and> \<not> autoincrement d \<and> persisted d)))
     \<and> (rows columns_result = front @ r # after
          \<longrightarrow> (\<forall>x\<in>set front. \<exists>t. resolve (snd x) = Inr t)
          \<longrightarrow> resolve (snd r) = Inl e
          \<longrightarrow> get_columns resolve tname columns_result = Inl e)"
proof -
  have run: "get_columns resolve tname columns_result
      = column_infos resolve (rows columns_result)"
    using assms by (simp add: get_columns_def)
  have good: "\<exists>infos. get_columns resolve tname columns_result = Inr infos
      \<and> length infos = length (rows columns_result)
      \<and> map info_name infos = map fst (rows columns_result)
      \<and> map (\<lambda>d. Inr (info_type d)) infos = map (\<lambda>r. resolve (snd r)) (rows columns_result)
      \<and> (\<forall>d\<in>set infos. nullable d \<and> \<not> autoincrement d \<and> persisted d)"
    if res: "\<forall>r\<in>set (rows columns_result). \<exists>t. resolve (snd r) = Inr t"
  proof -
    from column_infos_all [OF res] obtain infos where infos:
      "column_infos resolve (rows columns_result) = Inr infos"
      "map info_name infos = map fst (rows columns_result)"
      "map (\<lambda>d. Inr (info_type d)) infos = map (\<lambda>r. resolve (snd r)) (rows columns_result)"
      "\<forall>d\<in>set infos. nullable d \<and> \<not> autoincrement d \<and> persisted d"
      by blast
    have "length infos = length (rows columns_result)"
      using infos(2) by (metis length_map)
    with run infos show ?thesis by auto
  qed
  have bad: "get_columns resolve tname columns_result = Inl e"
    if "rows columns_result = front @ r # after"
      and "\<forall>x\<in>set front. \<exists>t. resolve (snd x) = Inr t"
      and "resolve (snd r) = Inl e"
    using that run column_infos_raises [of front resolve r e after] by simp
  from good bad show ?thesis by blast
qed

theorem get_columns_one_per_row_witness:
  "truthy trades_columns
   \<and> list_all (\<lambda>r. \<exists>t. resolve_type_from_name QUESTDB_TYPES (snd r) = Inr t)
         (rows trades_columns)
   \<and> (\<exists>infos. get_columns (resolve_type_from_name QUESTDB_TYPES) ''trades'' trades_columns
                 = Inr infos
        \<and> map info_name infos = [''ts'', ''price'']
        \<and> (\<forall>d\<in>set infos. nullable d \<and> \<not> autoincrement d \<and> persisted d))
   \<and> truthy trades_columns_binary
   \<and> rows trades_columns_binary = [(''ts'', ''TIMESTAMP'')] @ (''payload'', ''BINARY'') # []
   \<and> resolve_type_from_name QUESTDB_TYPES ''TIMESTAMP'' = Inr timestamp_type
   \<and> resolve_type_from_name QUESTDB_TYPES ''BINARY'' = Inl (UnknownType ''BINARY'')
   \<and> get_columns (resolve_type_from_name QUESTDB_TYPES) ''trades'' trades_columns_binary
       = Inl (UnknownType ''BINARY'')"
proof -
  let ?resolve = "resolve_type_from_name QUESTDB_TYPES"
  have h1: "truthy trades_columns" by (simp add: trades_columns_def)
  have h2: "\<forall>r\<in>set (rows trades_columns). \<exists>t. ?resolve (snd r) = Inr t"
    by (simp add: trades_columns_def resolve_timestamp resolve_double)
  from get_columns_one_per_row [where resolve = ?resolve and tname = "''trades''", OF h1] h2
  obtain infos where infos:
    "get_columns ?resolve ''trades'' trades_columns = Inr infos"
    "map info_name infos = map fst (rows trades_columns)"
    "\<forall>d\<in>set infos. nullable d \<and> \<not> autoincrement d \<and> persisted d"
    by blast
  from infos(2) have "map info_name infos = [''ts'', ''price'']"
    by (simp add: trades_columns_def)
  with infos(1,3) have good: "\<exists>infos.
      get_columns ?resolve ''trades'' trades_columns = Inr infos
      \<and> map info_name infos = [''ts'', ''price'']
      \<and> (\<forall>d\<in>set infos. nullable d \<and> \<not> autoincrement d \<and> persisted d)"
    by (intro exI [of _ infos] conjI)
  have b1: "truthy trades_columns_binary" by (simp add: trades_columns_binary_def)
  have b2: "rows trades_columns_binary = [(''ts'', ''TIMESTAMP'')] @ (''payload'', ''BINARY'') # []"
    by (simp add: trades_columns_binary_def)
  have b3: "\<forall>x\<in>set [(''ts'', ''TIMESTAMP'')]. \<exists>t. ?resolve (snd x) = Inr t"
    by (simp add: resolve_timestamp)
  have b4: "?resolve (snd (''payload'', ''BINARY'')) = Inl (UnknownType ''BINARY'')"
    by (simp add: resolve_binary)
  from get_columns_one_per_row
         [where resolve = ?resolve and tname = "''trades''"
            and front = "[(''ts'', ''TIMESTAMP'')]" and r = "(''payload'', ''BINARY'')"
            and after = "[]" and e = "UnknownType ''BINARY''",
          OF b1]
       b2 b3 b4
  have bad: "get_columns ?resolve ''trades'' trades_columns_binary = Inl (UnknownType ''BINARY'')"
    by blast
  from h1 h2 good b1 b2 bad resolve_timestamp resolve_binary
  show ?thesis by (simp add: list_all_iff)
qed

end
